theory Spec2Isabelle
  imports Complex_Main "HOL-Library.Sublist"
begin

section \<open>Resume analysis of the smart resume builder (src/app/page.tsx)\<close>

text \<open>
  The development embeds the class \<open>ResumeAnalysisService\<close>: keyword extraction, the
  ATS score, the two suggestion generators and the two analyses.

  Modelling conventions.
  \<^item> A JavaScript string is a \<open>string\<close>: one \<open>char\<close> per UTF-16 code unit, for the
    code units U+0000 to U+00FF. \<open>length\<close> is the \<open>.length\<close> of the source.
  \<^item> A JavaScript number is a \<open>number\<close>: a finite value (an exact rational), the two
    infinities, or NaN. The only non-integer arithmetic of the source divides two array
    lengths, multiplies by 100 and rounds; with at most 20 keywords on each side the
    double-precision result rounds to the same integer as the exact quotient.
  \<^item> The simulated delay (\<open>setTimeout\<close>) of the two analyses carries no data and is
    left out; the analyses are pure functions of their arguments.
\<close>

subsection \<open>Data model (the TypeScript interfaces)\<close>

record PersonalInfo =
  fullName :: string
  email :: string
  phone :: string
  location :: string
  website :: string
  linkedin :: string
  summary :: string

record Experience =
  id :: string
  company :: string
  position :: string
  startDate :: string
  endDate :: string
  current :: bool
  description :: string

record Education =
  id :: string
  institution :: string
  degree :: string
  field :: string
  startDate :: string
  endDate :: string
  gpa :: "string option"

record Skill =
  id :: string
  name :: string
  category :: string

record ResumeData =
  personalInfo :: PersonalInfo
  experience :: "Experience list"
  education :: "Education list"
  skills :: "Skill list"

datatype AnalysisType = ats | general

datatype number = Fin rat | PosInf | NegInf | NaN

record AnalysisResult =
  type :: AnalysisType
  score :: number
  suggestions :: "string list"
  keywordMatches :: "string list option"
  missingKeywords :: "string list option"
  strengths :: "string list option"
  weaknesses :: "string list option"
  industryInsights :: "string list option"

subsection \<open>JavaScript numbers: division, multiplication, Math.round, Math.max, Math.min\<close>

fun sign_of :: "number \<Rightarrow> int" where
  "sign_of (Fin a) = (if a = 0 then 0 else if 0 < a then 1 else -1)"
| "sign_of PosInf = 1"
| "sign_of NegInf = -1"
| "sign_of NaN = 0"

text \<open>\<open>x / y\<close>. The operands of the source are array lengths, so no negative zero
  arises, and a zero divisor is the positive zero.\<close>

fun js_div :: "number \<Rightarrow> number \<Rightarrow> number" where
  "js_div NaN y = NaN"
| "js_div x NaN = NaN"
| "js_div (Fin a) (Fin b) =
     (if b = 0 then (if a = 0 then NaN else if 0 < a then PosInf else NegInf)
      else Fin (a / b))"
| "js_div (Fin a) y = Fin 0"
| "js_div x (Fin b) = (if (sign_of x < 0) = (b < 0) then PosInf else NegInf)"
| "js_div x y = NaN"

text \<open>\<open>x * y\<close>.\<close>

fun js_times :: "number \<Rightarrow> number \<Rightarrow> number" where
  "js_times NaN y = NaN"
| "js_times x NaN = NaN"
| "js_times (Fin a) (Fin b) = Fin (a * b)"
| "js_times x y =
     (if sign_of x * sign_of y = 0 then NaN
      else if 0 < sign_of x * sign_of y then PosInf else NegInf)"

text \<open>\<open>Math.round\<close>: the nearest integer, a tie going up; NaN and the infinities stay.\<close>

fun Math_round :: "number \<Rightarrow> number" where
  "Math_round (Fin a) = Fin (of_int \<lfloor>a + 1 / 2\<rfloor>)"
| "Math_round x = x"

fun js_le :: "number \<Rightarrow> number \<Rightarrow> bool" where
  "js_le (Fin a) (Fin b) = (a \<le> b)"
| "js_le NegInf y = True"
| "js_le x PosInf = True"
| "js_le x y = False"

text \<open>\<open>Math.max\<close> and \<open>Math.min\<close> of two arguments: NaN as soon as one argument is NaN.\<close>

definition Math_max :: "number \<Rightarrow> number \<Rightarrow> number" where
  "Math_max x y = (if x = NaN \<or> y = NaN then NaN else if js_le x y then y else x)"

definition Math_min :: "number \<Rightarrow> number \<Rightarrow> number" where
  "Math_min x y = (if x = NaN \<or> y = NaN then NaN else if js_le x y then x else y)"

text \<open>The \<open>.length\<close> of an array or string, as a number.\<close>

definition len :: "'a list \<Rightarrow> number" where
  "len xs = Fin (of_nat (length xs))"

subsection \<open>Characters and the regular-expression classes\<close>

definition code :: "char \<Rightarrow> nat" where
  "code c = of_char c"

text \<open>\<open>\d\<close>: the ASCII digits.\<close>

definition is_digit :: "char \<Rightarrow> bool" where
  "is_digit c = (48 \<le> code c \<and> code c \<le> 57)"

text \<open>\<open>\w\<close>: ASCII letters, ASCII digits and the underscore.\<close>

definition is_word_char :: "char \<Rightarrow> bool" where
  "is_word_char c =
     ((65 \<le> code c \<and> code c \<le> 90) \<or> (97 \<le> code c \<and> code c \<le> 122)
      \<or> is_digit c \<or> code c = 95)"

text \<open>\<open>\s\<close>: tab, line feed, vertical tab, form feed, carriage return, space, no-break space.\<close>

definition is_space :: "char \<Rightarrow> bool" where
  "is_space c = ((9 \<le> code c \<and> code c \<le> 13) \<or> code c = 32 \<or> code c = 160)"

text \<open>\<open>toLowerCase\<close> of one code unit: A-Z, and the upper-case letters U+00C0 to U+00DE
  (U+00D7, the multiplication sign, is no letter).\<close>

definition lower_char :: "char \<Rightarrow> char" where
  "lower_char c =
     (if (65 \<le> code c \<and> code c \<le> 90) \<or> (192 \<le> code c \<and> code c \<le> 222 \<and> code c \<noteq> 215)
      then char_of (code c + 32) else c)"

definition toLowerCase :: "string \<Rightarrow> string" where
  "toLowerCase s = map lower_char s"

subsection \<open>String and array methods\<close>

text \<open>\<open>s.replace(/[^\w\s]/g, " ")\<close>: every code unit that is neither a word character nor
  white space becomes a space.\<close>

definition replace_nonword :: "string \<Rightarrow> string" where
  "replace_nonword s = map (\<lambda>c. if \<not> is_word_char c \<and> \<not> is_space c then CHR '' '' else c) s"

text \<open>\<open>s.split(/\s+/)\<close>: cut at every maximal run of white space. \<open>cur\<close> holds the piece
  being read, reversed; \<open>inrun\<close> says that the last code unit read was white space. A string
  that starts or ends with white space gives an empty first or last piece, and the empty
  string gives one empty piece, as in JavaScript.\<close>

fun split_loop :: "bool \<Rightarrow> string \<Rightarrow> string \<Rightarrow> string list" where
  "split_loop inrun cur [] = [rev cur]"
| "split_loop inrun cur (c # cs) =
     (if is_space c then
        (if inrun then split_loop True cur cs else rev cur # split_loop True [] cs)
      else split_loop False (c # cur) cs)"

definition split_ws :: "string \<Rightarrow> string list" where
  "split_ws s = split_loop False [] s"

text \<open>\<open>arr.indexOf(x)\<close>: the first index holding \<open>x\<close>, or -1.\<close>

fun indexOf_from :: "nat \<Rightarrow> 'a list \<Rightarrow> 'a \<Rightarrow> int" where
  "indexOf_from i [] x = -1"
| "indexOf_from i (y # ys) x = (if y = x then int i else indexOf_from (Suc i) ys x)"

definition indexOf :: "'a list \<Rightarrow> 'a \<Rightarrow> int" where
  "indexOf arr x = indexOf_from 0 arr x"

text \<open>\<open>arr.filter((word, index, arr) => p)\<close>: the callback sees the element, its index
  and the whole array.\<close>

definition filter_indexed :: "('a \<Rightarrow> nat \<Rightarrow> 'a list \<Rightarrow> bool) \<Rightarrow> 'a list \<Rightarrow> 'a list" where
  "filter_indexed p arr = map snd (filter (\<lambda>(i, w). p w i arr) (enumerate 0 arr))"

text \<open>\<open>s.includes(t)\<close>: \<open>t\<close> occurs in \<open>s\<close> at some position.\<close>

fun starts_with :: "string \<Rightarrow> string \<Rightarrow> bool" where
  "starts_with s [] = True"
| "starts_with [] (d # t) = False"
| "starts_with (c # s) (d # t) = (c = d \<and> starts_with s t)"

fun js_includes :: "string \<Rightarrow> string \<Rightarrow> bool" where
  "js_includes [] t = (t = [])"
| "js_includes (c # s) t = (starts_with (c # s) t \<or> js_includes s t)"

text \<open>\<open>arr.join(sep)\<close>.\<close>

fun join :: "string \<Rightarrow> string list \<Rightarrow> string" where
  "join sep [] = []"
| "join sep [x] = x"
| "join sep (x # y # ys) = x @ sep @ join sep (y # ys)"

text \<open>\<open>arr.some(p)\<close> is \<open>list_ex p arr\<close>, and \<open>arr.slice(0, n)\<close> is \<open>take n arr\<close>.\<close>

subsection \<open>extractKeywords\<close>

definition commonWords :: "string set" where
  "commonWords = set [''the'', ''and'', ''or'', ''but'', ''in'', ''on'', ''at'', ''to'', ''for'',
     ''of'', ''with'', ''by'', ''is'', ''are'', ''was'', ''were'', ''be'', ''been'', ''have'',
     ''has'', ''had'', ''do'', ''does'', ''did'', ''will'', ''would'', ''could'', ''should'',
     ''may'', ''might'', ''can'', ''must'', ''shall'']"

definition extractKeywords :: "string \<Rightarrow> string list" where
  "extractKeywords text =
     take 20
       (filter_indexed (\<lambda>word index arr. indexOf arr word = int index)
          (filter (\<lambda>word. 2 < length word \<and> word \<notin> commonWords)
             (split_ws (replace_nonword (toLowerCase text)))))"

subsection \<open>calculateATSScore\<close>

definition calculateATSScore :: "string list \<Rightarrow> string list \<Rightarrow> number" where
  "calculateATSScore resumeKeywords jobKeywords =
     (let matches = filter (\<lambda>keyword.
                      list_ex (\<lambda>jobKeyword. js_includes jobKeyword keyword
                                 \<or> js_includes keyword jobKeyword) jobKeywords)
                      resumeKeywords
      in Math_min (Fin 95)
           (Math_max (Fin 45)
              (Math_round (js_times (js_div (len matches) (len jobKeywords)) (Fin 100)))))"

subsection \<open>generateATSSuggestions\<close>

text \<open>\<open>/\d+/.test(s)\<close>: some code unit of \<open>s\<close> is a digit.\<close>

definition has_digits :: "string \<Rightarrow> bool" where
  "has_digits s = list_ex is_digit s"

definition generateATSSuggestions :: "string list \<Rightarrow> ResumeData \<Rightarrow> string list" where
  "generateATSSuggestions missing resumeData =
     (let s0 = [];
          s1 = (if 0 < length missing
                then s0 @ [''Include these relevant keywords: '' @ join '', '' (take 5 missing)]
                else s0);
          s2 = (if summary (personalInfo resumeData) = []
                then s1 @ [''Add a professional summary section to highlight your key qualifications'']
                else s1);
          s3 = (if length (experience resumeData) = 0
                then s2 @ [''Add work experience with quantifiable achievements'']
                else
                  (let hasQuantifiableResults =
                         list_ex (\<lambda>exp. has_digits (description exp)) (experience resumeData)
                   in if \<not> hasQuantifiableResults
                      then s2 @ [''Include specific numbers and metrics in your experience descriptions'']
                      else s2));
          s4 = (if length (skills resumeData) < 5
                then s3 @ [''Add more relevant technical and soft skills'']
                else s3);
          s5 = s4 @ [''Use action verbs to start bullet points (achieved, managed, developed, etc.)''];
          s6 = s5 @ [''Ensure consistent formatting and remove any typos'']
      in take 6 s6)"

subsection \<open>generateGeneralSuggestions\<close>

definition actionVerbs :: "string list" where
  "actionVerbs = [''achieved'', ''managed'', ''developed'', ''led'', ''created'', ''implemented'',
     ''improved'', ''increased'', ''reduced'', ''streamlined'']"

text \<open>\<open>/^(achieved|...|streamlined)/i.test(s)\<close>: \<open>s\<close> starts with one of the verbs, in any
  letter case.\<close>

definition starts_with_action_verb :: "string \<Rightarrow> bool" where
  "starts_with_action_verb s = list_ex (\<lambda>v. starts_with (toLowerCase s) v) actionVerbs"

fun js_less :: "number \<Rightarrow> number \<Rightarrow> bool" where
  "js_less NaN y = False"
| "js_less x NaN = False"
| "js_less x y = (\<not> js_le y x)"

definition generateGeneralSuggestions :: "ResumeData \<Rightarrow> string list" where
  "generateGeneralSuggestions resumeData =
     (let s0 = [];
          s1 = (if summary (personalInfo resumeData) = []
                then s0 @ [''Add a compelling professional summary that highlights your unique value proposition'']
                else if length (summary (personalInfo resumeData)) < 100
                then s0 @ [''Expand your professional summary to better showcase your expertise'']
                else s0);
          s2 = (if length (experience resumeData) = 0
                then s1 @ [''Add relevant work experience with specific achievements and responsibilities'']
                else
                  (let avgDescriptionLength =
                         js_div (Fin (foldl (\<lambda>sum exp. sum + of_nat (length (description exp))) 0
                                        (experience resumeData)))
                                (len (experience resumeData));
                       t1 = (if js_less avgDescriptionLength (Fin 150)
                             then s1 @ [''Provide more detailed descriptions of your accomplishments in each role'']
                             else s1);
                       hasActionVerbs =
                         list_ex (\<lambda>exp. starts_with_action_verb (description exp))
                           (experience resumeData)
                   in if \<not> hasActionVerbs
                      then t1 @ [''Start experience descriptions with strong action verbs'']
                      else t1));
          s3 = (if length (education resumeData) = 0
                then s2 @ [''Include your educational background and relevant certifications'']
                else s2);
          s4 = (if length (skills resumeData) < 8
                then s3 @ [''Add more relevant skills, including both technical and soft skills'']
                else s3);
          s5 = (if linkedin (personalInfo resumeData) = []
                then s4 @ [''Add your LinkedIn profile to increase professional credibility'']
                else s4);
          s6 = s5 @ [''Tailor your resume for each job application''];
          s7 = s6 @ [''Keep your resume to 1-2 pages for optimal readability'']
      in take 6 s7)"

subsection \<open>analyzeATS\<close>

text \<open>The text the resume is reduced to: the summary, one line per experience, education
  and skill, joined by spaces.\<close>

definition resumeText :: "ResumeData \<Rightarrow> string" where
  "resumeText resumeData =
     join '' ''
       ([summary (personalInfo resumeData)]
        @ map (\<lambda>exp. position exp @ '' '' @ company exp @ '' '' @ description exp)
            (experience resumeData)
        @ map (\<lambda>edu. degree edu @ '' '' @ field edu @ '' '' @ institution edu)
            (education resumeData)
        @ map (\<lambda>skill. name skill) (skills resumeData))"

definition analyzeATS :: "ResumeData \<Rightarrow> string \<Rightarrow> AnalysisResult" where
  "analyzeATS resumeData jobDescription =
     (let resumeKeywords = extractKeywords (resumeText resumeData);
          jobKeywords = extractKeywords jobDescription;
          keywordMatches' = filter (\<lambda>keyword.
                              list_ex (\<lambda>jobKeyword. js_includes jobKeyword keyword
                                         \<or> js_includes keyword keyword) jobKeywords)
                              resumeKeywords;
          missingKeywords' = take 8 (filter (\<lambda>keyword.
                               \<not> list_ex (\<lambda>resumeKeyword. js_includes resumeKeyword keyword
                                            \<or> js_includes keyword keyword) resumeKeywords)
                               jobKeywords);
          score' = calculateATSScore resumeKeywords jobKeywords;
          suggestions' = generateATSSuggestions missingKeywords' resumeData
      in \<lparr> type = ats,
           score = score',
           suggestions = suggestions',
           keywordMatches = Some (take 10 keywordMatches'),
           missingKeywords = Some missingKeywords',
           strengths = None,
           weaknesses = None,
           industryInsights = Some
             [''ATS systems scan for exact keyword matches'',
              ''Use standard section headings like '' @ [CHR 0x22] @ ''Work Experience''
                @ [CHR 0x22] @ '' and '' @ [CHR 0x22] @ ''Education'' @ [CHR 0x22],
              ''Avoid images, graphics, and complex formatting'',
              ''Include both acronyms and full terms (e.g., '' @ [CHR 0x22] @ ''AI''
                @ [CHR 0x22] @ '' and '' @ [CHR 0x22] @ ''Artificial Intelligence''
                @ [CHR 0x22] @ '')''] \<rparr>)"

subsection \<open>analyzeGeneral\<close>

text \<open>The local variables \<open>score\<close>, \<open>strengths\<close> and \<open>weaknesses\<close> are threaded through
  the checks as a triple; the three helpers are the three kinds of branch body.\<close>

type_synonym tally = "rat \<times> string list \<times> string list"

fun strength :: "rat \<Rightarrow> string \<Rightarrow> tally \<Rightarrow> tally" where
  "strength n msg (sc, st, wk) = (sc + n, st @ [msg], wk)"

fun bonus :: "rat \<Rightarrow> tally \<Rightarrow> tally" where
  "bonus n (sc, st, wk) = (sc + n, st, wk)"

fun weakness :: "string \<Rightarrow> tally \<Rightarrow> tally" where
  "weakness msg (sc, st, wk) = (sc, st, wk @ [msg])"

text \<open>Two code units in a row that satisfy \<open>p\<close>.\<close>

fun adjacent :: "(char \<Rightarrow> char \<Rightarrow> bool) \<Rightarrow> string \<Rightarrow> bool" where
  "adjacent p (a # b # s) = (p a b \<or> adjacent p (b # s))"
| "adjacent p s = False"

text \<open>\<open>/\d+%|\$\d+|\d+\+|increased|decreased|improved|reduced/i.test(s)\<close>. The pattern is
  not anchored, so \<open>\d+%\<close> matches exactly when a digit stands before a percent sign, and
  likewise for the other two alternatives with digits.\<close>

definition matches_quantifiable :: "string \<Rightarrow> bool" where
  "matches_quantifiable s =
     (adjacent (\<lambda>a b. is_digit a \<and> b = CHR ''%'') s
      \<or> adjacent (\<lambda>a b. a = CHR ''$'' \<and> is_digit b) s
      \<or> adjacent (\<lambda>a b. is_digit a \<and> b = CHR ''+'') s
      \<or> js_includes (toLowerCase s) ''increased''
      \<or> js_includes (toLowerCase s) ''decreased''
      \<or> js_includes (toLowerCase s) ''improved''
      \<or> js_includes (toLowerCase s) ''reduced'')"

definition analyzeGeneral_checks :: "ResumeData \<Rightarrow> tally" where
  "analyzeGeneral_checks resumeData =
     (let t0 = (60, [], []);
          t1 = (if summary (personalInfo resumeData) \<noteq> []
                   \<and> 100 < length (summary (personalInfo resumeData))
                then strength 10 ''Strong professional summary'' t0
                else weakness ''Missing or weak professional summary'' t0);
          t2 = (if 2 \<le> length (experience resumeData)
                then strength 15 ''Good work experience history'' t1
                else if length (experience resumeData) = 1
                then bonus 8 t1
                else weakness ''Limited work experience'' t1);
          t3 = (if 0 < length (education resumeData)
                then strength 10 ''Educational background included'' t2
                else weakness ''No educational information'' t2);
          t4 = (if 8 \<le> length (skills resumeData)
                then strength 10 ''Comprehensive skills section'' t3
                else if 5 \<le> length (skills resumeData)
                then bonus 5 t3
                else weakness ''Limited skills listed'' t3);
          t5 = (if linkedin (personalInfo resumeData) \<noteq> []
                then strength 5 ''Professional online presence'' t4
                else t4);
          hasQuantifiableResults =
            list_ex (\<lambda>exp. matches_quantifiable (description exp)) (experience resumeData);
          t6 = (if hasQuantifiableResults
                then strength 10 ''Quantifiable achievements mentioned'' t5
                else weakness ''Lacks quantifiable results'' t5)
      in t6)"

definition analyzeGeneral :: "ResumeData \<Rightarrow> AnalysisResult" where
  "analyzeGeneral resumeData =
     (case analyzeGeneral_checks resumeData of
        (score0, strengths', weaknesses') \<Rightarrow>
          (let score' = Math_min (Fin 95) (Math_max (Fin 35) (Fin score0))
           in \<lparr> type = general,
                score = score',
                suggestions = generateGeneralSuggestions resumeData,
                keywordMatches = None,
                missingKeywords = None,
                strengths = Some strengths',
                weaknesses = Some weaknesses',
                industryInsights = Some
                  [''Recruiters spend an average of 6 seconds reviewing each resume'',
                   ''Quantified achievements are 40% more likely to get attention'',
                   ''Tailored resumes have 2x higher callback rates'',
                   ''Professional formatting increases perceived competence by 30%''] \<rparr>))"

text \<open>The resume the editor starts from.\<close>

definition initialResumeData :: ResumeData where
  "initialResumeData =
     \<lparr> personalInfo = \<lparr> fullName = [], email = [], phone = [], location = [],
                        website = [], linkedin = [], summary = [] \<rparr>,
       experience = [], education = [], skills = [] \<rparr>"

subsection \<open>Specification-side definitions and example inputs\<close>

text \<open>The match count in the words of the specification: the resume keywords that are a
  substring of some job keyword, or have some job keyword as a substring. \<open>sublist\<close> is
  the contiguous-substring relation of the list library.\<close>

definition matchCount :: "string list \<Rightarrow> string list \<Rightarrow> nat" where
  "matchCount resumeKeywords jobKeywords =
     length (filter (\<lambda>k. \<exists>j \<in> set jobKeywords. sublist k j \<or> sublist j k) resumeKeywords)"

text \<open>Letters and digits, the characters the specification calls alphanumeric. Among the
  code units U+0000 to U+00FF the letters are A-Z, a-z, the two ordinal indicators
  (U+00AA, U+00BA), the micro sign (U+00B5) and the accented letters U+00C0 to U+00FF
  without the multiplication and division signs (U+00D7, U+00F7).\<close>

definition is_letter :: "char \<Rightarrow> bool" where
  "is_letter c =
     ((65 \<le> code c \<and> code c \<le> 90) \<or> (97 \<le> code c \<and> code c \<le> 122)
      \<or> code c = 170 \<or> code c = 181 \<or> code c = 186
      \<or> (192 \<le> code c \<and> code c \<le> 214) \<or> (216 \<le> code c \<and> code c \<le> 246)
      \<or> (248 \<le> code c \<and> code c \<le> 255))"

definition is_alphanumeric :: "char \<Rightarrow> bool" where
  "is_alphanumeric c = (is_letter c \<or> is_digit c)"

text \<open>Deduplication that keeps the first occurrence: walk the list and drop what has been
  seen before.\<close>

fun keep_unseen :: "'a list \<Rightarrow> 'a list \<Rightarrow> 'a list" where
  "keep_unseen seen [] = []"
| "keep_unseen seen (x # xs) =
     (if x \<in> set seen then keep_unseen seen xs else x # keep_unseen (x # seen) xs)"

definition dedup_first :: "'a list \<Rightarrow> 'a list" where
  "dedup_first xs = keep_unseen [] xs"

text \<open>Keyword extraction in the words of the specification: lower-case, replace every
  non-alphanumeric character by white space, split on white-space runs, keep the tokens
  longer than 2 that are no stop-words, deduplicate keeping the first occurrence, truncate
  to 20.\<close>

definition extractKeywords_claimed :: "string \<Rightarrow> string list" where
  "extractKeywords_claimed text =
     take 20 (dedup_first
       (filter (\<lambda>t. 2 < length t \<and> t \<notin> commonWords)
          (split_ws (map (\<lambda>c. if is_alphanumeric c then c else CHR '' '') (toLowerCase text)))))"

text \<open>The same pipeline where the characters that are kept are the ASCII letters, the ASCII
  digits and the underscore, and every other character, an accented letter too, becomes a
  space.\<close>

definition extractKeywords_amended :: "string \<Rightarrow> string list" where
  "extractKeywords_amended text =
     take 20 (dedup_first
       (filter (\<lambda>t. 2 < length t \<and> t \<notin> commonWords)
          (split_ws (map (\<lambda>c. if is_word_char c then c else CHR '' '') (toLowerCase text)))))"

text \<open>The general score before clamping, in the words of the specification: the summary
  earns its 10 points from 100 characters on.\<close>

definition claimed_general_score :: "ResumeData \<Rightarrow> rat" where
  "claimed_general_score r =
     60
     + (if summary (personalInfo r) \<noteq> [] \<and> 100 \<le> length (summary (personalInfo r))
        then 10 else 0)
     + (if 2 \<le> length (experience r) then 15 else if length (experience r) = 1 then 8 else 0)
     + (if 1 \<le> length (education r) then 10 else 0)
     + (if 8 \<le> length (skills r) then 10 else if 5 \<le> length (skills r) then 5 else 0)
     + (if linkedin (personalInfo r) \<noteq> [] then 5 else 0)
     + (if list_ex (\<lambda>exp. matches_quantifiable (description exp)) (experience r)
        then 10 else 0)"

text \<open>Example resumes: the initial resume with a summary of exactly 100 characters, and
  with two short summaries.\<close>

definition summary100 :: ResumeData where
  "summary100 = initialResumeData
     \<lparr> personalInfo := (personalInfo initialResumeData)
          \<lparr> summary := replicate 100 (CHR ''a'') \<rparr> \<rparr>"

definition pythonResume :: ResumeData where
  "pythonResume = initialResumeData
     \<lparr> personalInfo := (personalInfo initialResumeData) \<lparr> summary := ''Python Django'' \<rparr> \<rparr>"

definition javaResume :: ResumeData where
  "javaResume = initialResumeData
     \<lparr> personalInfo := (personalInfo initialResumeData)
          \<lparr> summary := ''Java Spring Python'' \<rparr> \<rparr>"

section \<open>Properties\<close>

subsection \<open>Numbers and clamping\<close>

lemma clamp_Fin: "Math_min (Fin hi) (Math_max (Fin lo) (Fin x)) = Fin (min hi (max lo x))"
  by (simp add: Math_min_def Math_max_def min_def max_def)

subsection \<open>Substring tests\<close>

lemma starts_with_prefix: "starts_with s t \<longleftrightarrow> prefix t s"
  by (induction s t rule: starts_with.induct) auto

lemma js_includes_sublist: "js_includes s t \<longleftrightarrow> sublist t s"
  by (induction s) (simp_all add: sublist_Cons_right starts_with_prefix)

lemma js_includes_self: "js_includes k k"
  by (simp add: js_includes_sublist)

subsection \<open>Keyword extraction\<close>

text \<open>Two replacement functions that agree on what is white space, and on every other
  character, give the same pieces.\<close>

lemma split_loop_map_cong:
  assumes "\<And>c. is_space (g c) = is_space (h c)"
    and "\<And>c. \<not> is_space (h c) \<Longrightarrow> g c = h c"
  shows "split_loop b cur (map g s) = split_loop b cur (map h s)"
  by (induction s arbitrary: b cur) (simp_all add: assms)

lemma is_space_blank: "is_space (CHR '' '')"
  by (simp add: is_space_def code_def)

lemma replace_nonword_split:
  "split_ws (replace_nonword s) = split_ws (map (\<lambda>c. if is_word_char c then c else CHR '' '') s)"
  unfolding split_ws_def replace_nonword_def
  by (rule split_loop_map_cong) (auto simp: is_space_blank)

text \<open>\<open>indexOf\<close> returns the position of an element exactly when the element does not
  occur before that position.\<close>

lemma indexOf_from_append_Cons:
  "indexOf_from k (pre @ x # rest) x = int (k + length pre) \<longleftrightarrow> x \<notin> set pre"
proof (induction pre arbitrary: k)
  case Nil
  show ?case by simp
next
  case (Cons y pre)
  show ?case using Cons.IH [of "Suc k"] by auto
qed

lemma filter_first_index:
  assumes "set seen = set pre"
  shows "map snd (filter (\<lambda>(i, w). indexOf_from 0 (pre @ xs) w = int i)
                    (enumerate (length pre) xs))
         = keep_unseen seen xs"
  using assms
proof (induction xs arbitrary: pre seen)
  case Nil
  then show ?case by simp
next
  case (Cons x xs)
  have hd: "indexOf_from 0 (pre @ x # xs) x = int (length pre) \<longleftrightarrow> x \<notin> set seen"
    using indexOf_from_append_Cons [of 0 pre x xs] Cons.prems by simp
  have tl: "map snd (filter (\<lambda>(i, w). indexOf_from 0 (pre @ x # xs) w = int i)
                 (enumerate (Suc (length pre)) xs)) = keep_unseen seen' xs"
    if "set seen' = insert x (set pre)" for seen'
    using Cons.IH [of seen' "pre @ [x]"] that by simp
  show ?case
  proof (cases "x \<in> set seen")
    case True
    then have "set seen = insert x (set pre)" using Cons.prems by auto
    then show ?thesis using True hd tl [of seen] by simp
  next
    case False
    have "set (x # seen) = insert x (set pre)" using Cons.prems by simp
    then show ?thesis using False hd tl [of "x # seen"] by simp
  qed
qed

lemma filter_indexed_dedup:
  "filter_indexed (\<lambda>word index arr. indexOf arr word = int index) arr = dedup_first arr"
  using filter_first_index [of "[]" "[]" arr]
  by (simp add: filter_indexed_def indexOf_def dedup_first_def)

text \<open>
  Claim C5, as stated, fails in two ways: the specification replaces every
  non-alphanumeric character, but the class \<open>\w\<close> of the code contains the underscore and
  no letter outside ASCII. So \<open>extractKeywords\<close> keeps \<open>full_stack\<close> as one keyword where
  the stated pipeline gives two, and it cuts \<open>caf\<close> out of the word \<open>caf\<close> followed by
  U+00E9 (e with acute accent), which the stated pipeline keeps whole.
\<close>

theorem extractKeywords_claimed_counterexample:
  "extractKeywords ''full_stack'' = [''full_stack'']
   \<and> extractKeywords_claimed ''full_stack'' = [''full'', ''stack'']
   \<and> extractKeywords (''caf'' @ [CHR 0xE9] @ '' latte'') = [''caf'', ''latte'']
   \<and> extractKeywords_claimed (''caf'' @ [CHR 0xE9] @ '' latte'')
       = [''caf'' @ [CHR 0xE9], ''latte'']"
  by code_simp

text \<open>
  Claim C5, amended: for every input string, \<open>extractKeywords\<close> returns the string
  lower-cased, with every character other than an ASCII letter (a-z, A-Z), an ASCII digit
  (0-9) or the underscore replaced by white space (accented letters are replaced too),
  split on white-space runs, filtered to the tokens longer than 2 characters that are no
  stop-words, deduplicated keeping the first occurrence in order, and truncated to at most
  20 tokens; the empty string yields the empty sequence, and \<open>cat dog cat bird\<close>
  yields \<open>cat\<close>, \<open>dog\<close>, \<open>bird\<close>.
\<close>

theorem extractKeywords_refines:
  "extractKeywords text = extractKeywords_amended text
   \<and> extractKeywords [] = []
   \<and> extractKeywords ''cat dog cat bird'' = [''cat'', ''dog'', ''bird'']"
proof (intro conjI)
  show "extractKeywords text = extractKeywords_amended text"
    by (simp only: extractKeywords_def extractKeywords_amended_def filter_indexed_dedup
          replace_nonword_split)
  show "extractKeywords [] = []"
    by code_simp
  show "extractKeywords ''cat dog cat bird'' = [''cat'', ''dog'', ''bird'']"
    by code_simp
qed

subsection \<open>The ATS score\<close>

lemma score_ats:
  "score (analyzeATS r jd) = calculateATSScore (extractKeywords (resumeText r)) (extractKeywords jd)"
  by (simp add: analyzeATS_def Let_def)

text \<open>Without job keywords the quotient is 0 / 0, and NaN passes through \<open>Math.round\<close>,
  \<open>Math.max\<close> and \<open>Math.min\<close>.\<close>

lemma calculateATSScore_no_job_keywords: "calculateATSScore rks [] = NaN"
  by (simp add: calculateATSScore_def len_def Math_max_def Math_min_def)

lemma calculateATSScore_job_keywords:
  assumes "jks \<noteq> []"
  shows "calculateATSScore rks jks =
     Fin (of_int (min 95 (max 45
       (round (of_nat (matchCount rks jks) / of_nat (length jks) * 100 :: rat)))))"
proof -
  have m: "filter (\<lambda>keyword. list_ex (\<lambda>jobKeyword. js_includes jobKeyword keyword
               \<or> js_includes keyword jobKeyword) jks) rks
           = filter (\<lambda>k. \<exists>j \<in> set jks. sublist k j \<or> sublist j k) rks"
    by (simp add: js_includes_sublist list_ex_iff)
  have n: "(of_nat (length jks) :: rat) \<noteq> 0"
    using assms by simp
  show ?thesis
    unfolding calculateATSScore_def Let_def m len_def matchCount_def
    using n by (simp add: clamp_Fin round_def of_int_min of_int_max)
qed

lemma calculateATSScore_in_range:
  assumes "jks \<noteq> []"
  shows "\<exists>q. calculateATSScore rks jks = Fin q \<and> 45 \<le> q \<and> q \<le> 95"
  unfolding calculateATSScore_job_keywords [OF assms] by simp

text \<open>
  Claim C1 says that the ATS score lies in [45, 95] for every non-empty job description,
  also when the description yields no keyword. The code does not do that: a job
  description whose tokens are all shorter than 3 characters (or stop-words) yields no
  keyword, and the score is NaN, for every resume.
\<close>

theorem ats_score_NaN_without_job_keywords:
  "''Go, C++, R'' \<noteq> [] \<and> extractKeywords ''Go, C++, R'' = []
   \<and> score (analyzeATS r ''Go, C++, R'') = NaN"
proof -
  have e: "extractKeywords ''Go, C++, R'' = []"
    by code_simp
  have "score (analyzeATS r ''Go, C++, R'') = NaN"
    by (simp only: score_ats e calculateATSScore_no_job_keywords)
  with e show ?thesis by simp
qed

text \<open>
  Claim C3: when the job description yields at least one keyword, the ATS score is
  \<open>round (matchCount / |jobKeywords| * 100)\<close> clamped to [45, 95], where \<open>matchCount\<close>
  counts the resume keywords that are a substring of some job keyword or have some job
  keyword as a substring.
\<close>

theorem ats_score_formula:
  assumes "extractKeywords jd \<noteq> []"
  shows "score (analyzeATS r jd) =
     Fin (of_int (min 95 (max 45
       (round (of_nat (matchCount (extractKeywords (resumeText r)) (extractKeywords jd))
               / of_nat (length (extractKeywords jd)) * 100 :: rat)))))"
  unfolding score_ats using assms by (rule calculateATSScore_job_keywords)

lemma job_keywords_java:
  "extractKeywords ''Java Spring Boot microservices'' = [''java'', ''spring'', ''boot'', ''microservices'']"
  by code_simp

lemma score_javaResume: "score (analyzeATS javaResume ''Java Spring Boot microservices'') = Fin 50"
  by code_simp

theorem ats_score_formula_witness:
  "extractKeywords ''Java Spring Boot microservices'' \<noteq> []
   \<and> score (analyzeATS javaResume ''Java Spring Boot microservices'') = Fin 50
   \<and> Fin 50 = Fin (of_int (min 95 (max 45
       (round (of_nat (matchCount (extractKeywords (resumeText javaResume))
                         (extractKeywords ''Java Spring Boot microservices''))
               / of_nat (length (extractKeywords ''Java Spring Boot microservices'')) * 100
               :: rat)))))"
proof -
  have h: "extractKeywords ''Java Spring Boot microservices'' \<noteq> []"
    by (simp add: job_keywords_java)
  show ?thesis
    using h ats_score_formula [OF h, of javaResume] by (simp add: score_javaResume)
qed

subsection \<open>Keyword matches and missing keywords\<close>

text \<open>
  Claim C6 says that \<open>keywordMatches\<close> holds the resume keywords that pass the containment
  test of the score. The code tests \<open>keyword.includes(keyword)\<close> where the score tests
  \<open>keyword.includes(jobKeyword)\<close>, so every resume keyword is reported as soon as there is
  one job keyword: a resume about Python and Django matches a Java job description in both
  of its keywords, where the containment test of the score selects none.
\<close>

theorem keywordMatches_python_java:
  "keywordMatches (analyzeATS pythonResume ''Java Spring Boot microservices'')
     = Some [''python'', ''django'']
   \<and> take 10 (filter (\<lambda>k. list_ex (\<lambda>j. js_includes j k \<or> js_includes k j)
                 (extractKeywords ''Java Spring Boot microservices''))
        (extractKeywords (resumeText pythonResume))) = []"
  by code_simp

lemma missing_ats:
  "missingKeywords (analyzeATS r jd) =
     Some (take 8 (filter (\<lambda>keyword.
        \<not> list_ex (\<lambda>resumeKeyword. js_includes resumeKeyword keyword
                      \<or> js_includes keyword keyword) (extractKeywords (resumeText r)))
        (extractKeywords jd)))"
  by (simp add: analyzeATS_def Let_def)

text \<open>
  Claim C7: the containment test of the missing keywords compares a job keyword with
  itself, which always holds, so every job keyword counts as present: whenever the resume
  text yields at least one keyword, \<open>missingKeywords\<close> is the empty list.
\<close>

theorem missingKeywords_degenerate:
  assumes "extractKeywords (resumeText r) \<noteq> []"
  shows "js_includes keyword keyword \<and> missingKeywords (analyzeATS r jd) = Some []"
proof -
  have "list_ex (\<lambda>resumeKeyword. js_includes resumeKeyword k \<or> js_includes k k)
          (extractKeywords (resumeText r))" for k
    using assms by (cases "extractKeywords (resumeText r)") (simp_all add: js_includes_self)
  then show ?thesis
    by (simp add: missing_ats js_includes_self)
qed

lemma resume_keywords_python: "extractKeywords (resumeText pythonResume) = [''python'', ''django'']"
  by code_simp

theorem missingKeywords_degenerate_witness:
  "extractKeywords (resumeText pythonResume) \<noteq> []
   \<and> js_includes ''java'' ''java''
   \<and> missingKeywords (analyzeATS pythonResume ''Java Spring Boot microservices'') = Some []"
proof -
  have h: "extractKeywords (resumeText pythonResume) \<noteq> []"
    by (simp add: resume_keywords_python)
  show ?thesis
    using h missingKeywords_degenerate [OF h, of "''java''" "''Java Spring Boot microservices''"]
    by simp
qed

subsection \<open>The general score\<close>

lemma fst_strength: "fst (strength n msg t) = fst t + n"
  by (cases t) simp

lemma fst_bonus: "fst (bonus n t) = fst t + n"
  by (cases t) simp

lemma fst_weakness: "fst (weakness msg t) = fst t"
  by (cases t) simp

lemma analyzeGeneral_score:
  "score (analyzeGeneral r) = Fin (min 95 (max 35 (fst (analyzeGeneral_checks r))))"
  by (simp add: analyzeGeneral_def clamp_Fin split: prod.split)

lemma checks_score:
  "fst (analyzeGeneral_checks r) =
     60
     + (if 100 < length (summary (personalInfo r)) then 10 else 0)
     + (if 2 \<le> length (experience r) then 15 else if length (experience r) = 1 then 8 else 0)
     + (if 0 < length (education r) then 10 else 0)
     + (if 8 \<le> length (skills r) then 10 else if 5 \<le> length (skills r) then 5 else 0)
     + (if linkedin (personalInfo r) \<noteq> [] then 5 else 0)
     + (if list_ex (\<lambda>exp. matches_quantifiable (description exp)) (experience r)
        then 10 else 0)"
proof -
  have s: "(summary (personalInfo r) \<noteq> [] \<and> 100 < length (summary (personalInfo r)))
           = (100 < length (summary (personalInfo r)))"
    by auto
  show ?thesis
    unfolding analyzeGeneral_checks_def Let_def s
    by (simp add: fst_strength fst_bonus fst_weakness if_distrib [where f = fst])
qed

lemma checks_score_bounds:
  "60 \<le> fst (analyzeGeneral_checks r) \<and> fst (analyzeGeneral_checks r) \<le> 120"
  unfolding checks_score by simp

text \<open>What the code computes: the score before clamping is 60 plus the additions of the
  six checks, the summary earning its 10 points only with more than 100 characters, and
  the final score is this sum clamped to [35, 95].\<close>

lemma general_score_deltas:
  "fst (analyzeGeneral_checks r) =
     60
     + (if 100 < length (summary (personalInfo r)) then 10 else 0)
     + (if 2 \<le> length (experience r) then 15 else if length (experience r) = 1 then 8 else 0)
     + (if 1 \<le> length (education r) then 10 else 0)
     + (if 8 \<le> length (skills r) then 10 else if 5 \<le> length (skills r) then 5 else 0)
     + (if linkedin (personalInfo r) \<noteq> [] then 5 else 0)
     + (if list_ex (\<lambda>exp. matches_quantifiable (description exp)) (experience r)
        then 10 else 0)
   \<and> score (analyzeGeneral r) = Fin (min 95 (max 35 (fst (analyzeGeneral_checks r))))"
proof -
  have e: "(1 \<le> length (education r)) = (0 < length (education r))"
    by (cases "education r") auto
  show ?thesis
    unfolding e by (simp only: analyzeGeneral_score checks_score simp_thms)
qed

text \<open>Away from a summary of exactly 100 characters the code computes the score of the
  specification.\<close>

lemma general_score_as_claimed:
  assumes "length (summary (personalInfo r)) \<noteq> 100"
  shows "fst (analyzeGeneral_checks r) = claimed_general_score r"
proof -
  have s: "(summary (personalInfo r) \<noteq> [] \<and> 100 \<le> length (summary (personalInfo r)))
           = (100 < length (summary (personalInfo r)))"
    using assms by auto
  have e: "(1 \<le> length (education r)) = (0 < length (education r))"
    by (cases "education r") auto
  show ?thesis
    unfolding claimed_general_score_def s e by (simp only: checks_score)
qed

lemma suggestions_general: "suggestions (analyzeGeneral r) = generateGeneralSuggestions r"
  by (simp add: analyzeGeneral_def split: prod.split)

lemma weaknesses_general:
  "weaknesses (analyzeGeneral r) = Some (snd (snd (analyzeGeneral_checks r)))"
  by (simp add: analyzeGeneral_def split: prod.split)

lemma weaknesses_summary100:
  "weaknesses (analyzeGeneral summary100) = Some
     [''Missing or weak professional summary'', ''Limited work experience'',
      ''No educational information'', ''Limited skills listed'', ''Lacks quantifiable results'']"
  unfolding weaknesses_general
  by (simp add: analyzeGeneral_checks_def Let_def summary100_def initialResumeData_def)

lemma suggestions_summary100:
  "suggestions (analyzeGeneral summary100) =
     [''Add relevant work experience with specific achievements and responsibilities'',
      ''Include your educational background and relevant certifications'',
      ''Add more relevant skills, including both technical and soft skills'',
      ''Add your LinkedIn profile to increase professional credibility'',
      ''Tailor your resume for each job application'',
      ''Keep your resume to 1-2 pages for optimal readability'']"
  unfolding suggestions_general
  by code_simp

text \<open>
  Claim C4 gives the summary its 10 points from 100 characters on. The code does not do
  that at exactly 100 characters: the score test asks for more than 100 characters, so the
  summary earns nothing (score 60 where the claim gives 70) and is listed as a weakness,
  while the suggestion generator of the same analysis, which asks for fewer than 100
  characters before it calls a summary short, has no suggestion about the summary.
\<close>

theorem general_score_summary100:
  "length (summary (personalInfo summary100)) = 100
   \<and> fst (analyzeGeneral_checks summary100) = 60
   \<and> claimed_general_score summary100 = 70
   \<and> score (analyzeGeneral summary100) = Fin 60
   \<and> score (analyzeGeneral summary100) \<noteq> Fin (min 95 (max 35 (claimed_general_score summary100)))
   \<and> weaknesses (analyzeGeneral summary100) = Some
        [''Missing or weak professional summary'', ''Limited work experience'',
         ''No educational information'', ''Limited skills listed'',
         ''Lacks quantifiable results'']
   \<and> suggestions (analyzeGeneral summary100) =
        [''Add relevant work experience with specific achievements and responsibilities'',
         ''Include your educational background and relevant certifications'',
         ''Add more relevant skills, including both technical and soft skills'',
         ''Add your LinkedIn profile to increase professional credibility'',
         ''Tailor your resume for each job application'',
         ''Keep your resume to 1-2 pages for optimal readability'']"
proof -
  have a: "length (summary (personalInfo summary100)) = 100"
    and b: "fst (analyzeGeneral_checks summary100) = 60"
    and c: "claimed_general_score summary100 = 70"
    and d: "score (analyzeGeneral summary100) = Fin 60"
    and e: "score (analyzeGeneral summary100)
              \<noteq> Fin (min 95 (max 35 (claimed_general_score summary100)))"
    by (simp_all add: analyzeGeneral_score checks_score claimed_general_score_def
          summary100_def initialResumeData_def)
  show ?thesis
    by (intro conjI a b c d e weaknesses_summary100 suggestions_summary100)
qed

text \<open>Claim C9: for every resume, the score of \<open>analyzeGeneral\<close> lies in [35, 95].\<close>

theorem analyzeGeneral_score_in_35_95:
  "\<exists>q. score (analyzeGeneral r) = Fin q \<and> 35 \<le> q \<and> q \<le> 95"
  unfolding analyzeGeneral_score by simp

text \<open>
  Claim C10: for every resume, the score of \<open>analyzeGeneral\<close> lies in [60, 95]: the checks
  only add to the base of 60, so the lower clamp of 35 never changes the score.
\<close>

theorem analyzeGeneral_score_in_60_95:
  "60 \<le> fst (analyzeGeneral_checks r)
   \<and> Math_max (Fin 35) (Fin (fst (analyzeGeneral_checks r))) = Fin (fst (analyzeGeneral_checks r))
   \<and> (\<exists>q. score (analyzeGeneral r) = Fin q \<and> 60 \<le> q \<and> q \<le> 95)"
  using checks_score_bounds [of r]
  by (simp add: analyzeGeneral_score Math_max_def)

subsection \<open>The empty resume\<close>

text \<open>
  Claim C2, as stated, fails: the general score of the empty resume is the base score 60,
  not the clamp floor 35.
\<close>

theorem empty_resume_score_counterexample:
  "score (analyzeGeneral initialResumeData) = Fin 60
   \<and> score (analyzeGeneral initialResumeData) \<noteq> Fin 35"
  by (simp add: analyzeGeneral_score checks_score initialResumeData_def)

lemma checks_weaknesses_empty:
  assumes "summary (personalInfo r) = []" and "experience r = []"
    and "education r = []" and "skills r = []"
  shows "snd (snd (analyzeGeneral_checks r)) =
     [''Missing or weak professional summary'', ''Limited work experience'',
      ''No educational information'', ''Limited skills listed'', ''Lacks quantifiable results'']"
  using assms by (simp add: analyzeGeneral_checks_def Let_def)

text \<open>
  Claim C2, amended: for a resume with an empty summary, no experience entries, no
  education entries and no skills, \<open>analyzeGeneral\<close> returns the score 60 (65 when the
  LinkedIn field is not empty), and its weaknesses are the five entries for the five
  structural gaps: summary, experience, education, skills, quantifiable results.
\<close>

theorem empty_resume_general:
  assumes "summary (personalInfo r) = []" and "experience r = []"
    and "education r = []" and "skills r = []"
  shows "score (analyzeGeneral r) = Fin (if linkedin (personalInfo r) = [] then 60 else 65)
    \<and> weaknesses (analyzeGeneral r) = Some
         [''Missing or weak professional summary'', ''Limited work experience'',
          ''No educational information'', ''Limited skills listed'',
          ''Lacks quantifiable results'']"
proof
  show "score (analyzeGeneral r) = Fin (if linkedin (personalInfo r) = [] then 60 else 65)"
    using assms by (simp add: analyzeGeneral_score checks_score)
  show "weaknesses (analyzeGeneral r) = Some
         [''Missing or weak professional summary'', ''Limited work experience'',
          ''No educational information'', ''Limited skills listed'',
          ''Lacks quantifiable results'']"
    using assms by (simp only: weaknesses_general checks_weaknesses_empty)
qed

theorem empty_resume_general_witness:
  "summary (personalInfo initialResumeData) = [] \<and> experience initialResumeData = []
   \<and> education initialResumeData = [] \<and> skills initialResumeData = []
   \<and> score (analyzeGeneral initialResumeData) = Fin 60
   \<and> weaknesses (analyzeGeneral initialResumeData) = Some
         [''Missing or weak professional summary'', ''Limited work experience'',
          ''No educational information'', ''Limited skills listed'',
          ''Lacks quantifiable results'']"
proof -
  have h: "summary (personalInfo initialResumeData) = []" "experience initialResumeData = []"
    "education initialResumeData = []" "skills initialResumeData = []"
    by (simp_all add: initialResumeData_def)
  have l: "linkedin (personalInfo initialResumeData) = []"
    by (simp add: initialResumeData_def)
  show ?thesis
    using h empty_resume_general [OF h] by (simp only: l if_True simp_thms)
qed

subsection \<open>Suggestions and industry insights\<close>

lemma suggestions_ats:
  "suggestions (analyzeATS r jd) =
     generateATSSuggestions (the (missingKeywords (analyzeATS r jd))) r"
  by (simp add: analyzeATS_def Let_def)

lemma length_generateGeneralSuggestions: "length (generateGeneralSuggestions r) \<le> 6"
  unfolding generateGeneralSuggestions_def
  by (simp only: Let_def length_take min.cobounded2)

lemma length_generateATSSuggestions: "length (generateATSSuggestions m r) \<le> 6"
  unfolding generateATSSuggestions_def
  by (simp only: Let_def length_take min.cobounded2)

lemma insights_general:
  "industryInsights (analyzeGeneral r) = Some
     [''Recruiters spend an average of 6 seconds reviewing each resume'',
      ''Quantified achievements are 40% more likely to get attention'',
      ''Tailored resumes have 2x higher callback rates'',
      ''Professional formatting increases perceived competence by 30%'']"
  by (simp add: analyzeGeneral_def split: prod.split)

lemma insights_ats:
  "industryInsights (analyzeATS r jd) = Some
     [''ATS systems scan for exact keyword matches'',
      ''Use standard section headings like '' @ [CHR 0x22] @ ''Work Experience''
        @ [CHR 0x22] @ '' and '' @ [CHR 0x22] @ ''Education'' @ [CHR 0x22],
      ''Avoid images, graphics, and complex formatting'',
      ''Include both acronyms and full terms (e.g., '' @ [CHR 0x22] @ ''AI''
        @ [CHR 0x22] @ '' and '' @ [CHR 0x22] @ ''Artificial Intelligence''
        @ [CHR 0x22] @ '')'']"
  by (simp add: analyzeATS_def Let_def)

text \<open>
  Claim C8: for every resume and job description, the suggestions of \<open>analyzeGeneral\<close> and
  of \<open>analyzeATS\<close> are at most 6, and the industry insights are 4 entries that do not depend
  on the input.
\<close>

theorem suggestions_and_insights_capped:
  "length (suggestions (analyzeGeneral r)) \<le> 6
   \<and> length (suggestions (analyzeATS r jd)) \<le> 6
   \<and> (\<exists>xs. industryInsights (analyzeGeneral r) = Some xs \<and> length xs = 4)
   \<and> (\<exists>xs. industryInsights (analyzeATS r jd) = Some xs \<and> length xs = 4)
   \<and> industryInsights (analyzeGeneral r) = industryInsights (analyzeGeneral r')
   \<and> industryInsights (analyzeATS r jd) = industryInsights (analyzeATS r' jd')"
proof (intro conjI)
  show "length (suggestions (analyzeGeneral r)) \<le> 6"
    by (simp only: suggestions_general length_generateGeneralSuggestions)
  show "length (suggestions (analyzeATS r jd)) \<le> 6"
    by (simp only: suggestions_ats length_generateATSSuggestions)
  show "\<exists>xs. industryInsights (analyzeGeneral r) = Some xs \<and> length xs = 4"
    unfolding insights_general by simp
  show "\<exists>xs. industryInsights (analyzeATS r jd) = Some xs \<and> length xs = 4"
    unfolding insights_ats by simp
  show "industryInsights (analyzeGeneral r) = industryInsights (analyzeGeneral r')"
    by (simp only: insights_general)
  show "industryInsights (analyzeATS r jd) = industryInsights (analyzeATS r' jd')"
    by (simp only: insights_ats)
qed

end
